theory Spec2Isabelle
  imports Main
begin

section \<open>The security plugin: x-pack/plugins/security/index.js\<close>

text \<open>
  The plugin file registers an \<open>onPostAuth\<close> request interceptor, a \<open>replaceInjectedVars\<close>
  hook, two saved-objects client factories, a configuration schema and a deprecation list.
  The authorization service, the capability disabler, the saved-objects service and the
  cluster client are collaborators imported from other modules; they appear here as
  parameters, at the interface the plugin file uses them through.
\<close>

subsection \<open>JavaScript string operations used by the plugin\<close>

text \<open>\<open>s.startsWith(p)\<close>.\<close>

definition startsWith :: "string \<Rightarrow> string \<Rightarrow> bool" where
  "startsWith s p = (take (length p) s = p)"

text \<open>
  \<open>s.split(c)\<close> for a one-character separator: the pieces between the separators, in order;
  the empty string gives one empty piece.
\<close>

fun split_all :: "char \<Rightarrow> string \<Rightarrow> string list" where
  "split_all c [] = [[]]"
| "split_all c (x # xs) =
     (if x = c then [] # split_all c xs
      else (case split_all c xs of
              [] \<Rightarrow> [[x]]
            | w # ws \<Rightarrow> (x # w) # ws))"

text \<open>
  \<open>s.split(c, limit)\<close>: JavaScript splits the whole string and keeps the first \<open>limit\<close>
  pieces; the text after them is dropped, not appended to the last piece.
\<close>

definition split :: "char \<Rightarrow> nat \<Rightarrow> string \<Rightarrow> string list" where
  "split c limit s = take limit (split_all c s)"

text \<open>\<open>xs[i]\<close> on an array: \<open>undefined\<close> (here \<open>None\<close>) out of range.\<close>

definition index :: "'a list \<Rightarrow> nat \<Rightarrow> 'a option" where
  "index xs i = (if i < length xs then Some (xs ! i) else None)"

text \<open>A value inside a template literal: \<open>undefined\<close> is rendered as the text "undefined".\<close>

fun template :: "string option \<Rightarrow> string" where
  "template None = ''undefined''"
| "template (Some s) = s"

subsection \<open>Requests and responses\<close>

text \<open>
  \<open>route.settings.auth\<close> is \<open>false\<close> on an anonymous route and an authentication
  configuration otherwise; \<open>route.settings.tags\<close> may be absent.
\<close>

datatype auth_setting = AuthBool bool | AuthConfig string | AuthUndefined

record route_settings =
  auth :: auth_setting
  tags :: "string list option"

record route =
  settings :: route_settings

text \<open>The principal is the opaque identity the request carries; the plugin never reads it.\<close>

record request =
  path :: string
  route :: route
  principal :: string

text \<open>
  What the interceptor returns: \<open>h.continue\<close>, or a Boom error. \<open>Boom.notFound(message)\<close>
  is the error with status 404 and the optional message it was given.
\<close>

datatype response = h_continue | Boom nat "string option"

definition Boom_notFound :: "string option \<Rightarrow> response" where
  "Boom_notFound message = Boom 404 message"

subsection \<open>The authorization service as the plugin uses it\<close>

text \<open>
  \<open>checkPrivileges\<close> is called with one action for an app and with an array of actions for
  an API route.
\<close>

datatype 'act check_arg = Single 'act | Many "'act list"

record check_response =
  hasAllRequested :: bool

text \<open>
  The world \<open>'w\<close> is everything outside the request being handled: the license state the
  mode is computed from, the identity backend. \<open>useRbac\<close> reads it; the asynchronous
  \<open>checkPrivileges\<close> returns its answer together with the world as it is when the request
  resumes, which may differ from the world at the call in any way, the mode included.
  The collaborators are taken at their interface: \<open>actions.app.get\<close> and \<open>actions.api.get\<close>
  return an action, \<open>checkPrivileges\<close> resolves to a response.
\<close>

record 'act actions =
  app_get :: "string option \<Rightarrow> 'act"
  api_get :: "string \<Rightarrow> 'act"

record ('act, 'w) authorization =
  useRbac :: "'w \<Rightarrow> bool"
  actions :: "'act actions"
  checkPrivilegesDynamicallyWithRequest ::
    "request \<Rightarrow> 'act check_arg \<Rightarrow> 'w \<Rightarrow> check_response \<times> 'w"

text \<open>The calls a hook makes on its collaborators, in the order it makes them.\<close>

datatype 'act event =
    UseRbac bool
  | CheckPrivilegesDynamicallyWithRequest request
  | CheckPrivileges "'act check_arg"
  | DisableUICapabilitesFactory request
  | DisableAll
  | DisableUsingPrivileges

subsection \<open>The onPostAuth interceptor\<close>

text \<open>
  The block "Enforce app restrictions". It yields \<open>Some\<close> response when the hook returns
  from inside the block and \<open>None\<close> when control falls through to the next block.
\<close>

definition enforce_app ::
  "('act, 'w) authorization \<Rightarrow> ('act check_arg \<Rightarrow> 'w \<Rightarrow> check_response \<times> 'w) \<Rightarrow> string \<Rightarrow> 'w
     \<Rightarrow> response option \<times> 'act event list \<times> 'w" where
  "enforce_app authz checkPrivileges p w =
     (if startsWith p ''/app/'' then
        let appId = index (split CHR ''/'' 3 p) 2;
            appAction = app_get (actions authz) appId;
            (checkPrivilegesResponse, w') = checkPrivileges (Single appAction) w
        in if \<not> hasAllRequested checkPrivilegesResponse
           then (Some (Boom_notFound None), [CheckPrivileges (Single appAction)], w')
           else (None, [CheckPrivileges (Single appAction)], w')
      else (None, [], w))"

text \<open>The block "Enforce API restrictions for associated applications".\<close>

definition enforce_api ::
  "('act, 'w) authorization \<Rightarrow> ('act check_arg \<Rightarrow> 'w \<Rightarrow> check_response \<times> 'w) \<Rightarrow> request \<Rightarrow> 'w
     \<Rightarrow> response option \<times> 'act event list \<times> 'w" where
  "enforce_api authz checkPrivileges req w =
     (if startsWith (path req) ''/api/'' then
        let tags = (case tags (settings (route req)) of None \<Rightarrow> [] | Some ts \<Rightarrow> ts);
            actionTags = filter (\<lambda>tag. startsWith tag ''access:'') tags
        in if length actionTags > 0 then
             let feature = index (split CHR ''/'' 3 (path req)) 2;
                 apiActions = map (\<lambda>tag. api_get (actions authz)
                    (template feature @ ''/'' @ template (index (split CHR '':'' 2 tag) 1)))
                    actionTags;
                 (checkPrivilegesResponse, w') = checkPrivileges (Many apiActions) w
             in if \<not> hasAllRequested checkPrivilegesResponse
                then (Some (Boom_notFound None), [CheckPrivileges (Many apiActions)], w')
                else (None, [CheckPrivileges (Many apiActions)], w')
           else (None, [], w)
      else (None, [], w))"

text \<open>
  The hook itself. The result is the response, the calls made, and the world at the moment
  the hook returns.
\<close>

definition onPostAuth ::
  "('act, 'w) authorization \<Rightarrow> request \<Rightarrow> 'w \<Rightarrow> response \<times> 'act event list \<times> 'w" where
  "onPostAuth authz req w =
     (let m = useRbac authz w in
      if \<not> m then (h_continue, [UseRbac m], w)
      else
        let checkPrivileges = checkPrivilegesDynamicallyWithRequest authz req;
            (r1, t1, w1) = enforce_app authz checkPrivileges (path req) w
        in case r1 of
             Some resp \<Rightarrow> (resp, [UseRbac m, CheckPrivilegesDynamicallyWithRequest req] @ t1, w1)
           | None \<Rightarrow>
               (let (r2, t2, w2) = enforce_api authz checkPrivileges req w1
                in (case r2 of
                      Some resp \<Rightarrow>
                        (resp, [UseRbac m, CheckPrivilegesDynamicallyWithRequest req] @ t1 @ t2, w2)
                    | None \<Rightarrow>
                        (h_continue,
                         [UseRbac m, CheckPrivilegesDynamicallyWithRequest req] @ t1 @ t2, w2))))"

subsection \<open>The replaceInjectedVars hook\<close>

text \<open>
  The injected vars are an object with a \<open>uiCapabilities\<close> field among others; the other
  fields are the extension part of the record. Objects live in a store and are passed by
  reference (an index into the store), so that returning the object it was given and
  returning a fresh copy are different results.
\<close>

record 'c injectedVars =
  uiCapabilities :: 'c

type_synonym ('c, 'm) store = "('c, 'm) injectedVars_scheme list"

text \<open>What \<open>disableUICapabilitesFactory(server, request)\<close> returns.\<close>

record ('c, 'w) disableUICapabilites =
  all :: "'c \<Rightarrow> 'c"
  usingPrivileges :: "'c \<Rightarrow> 'w \<Rightarrow> 'c \<times> 'w"

text \<open>
  The object literal \<open>{...originalInjectedVars, uiCapabilities: v}\<close> allocates a new
  object, copies the fields of the original into it and sets \<open>uiCapabilities\<close>.
  The result is the reference returned, the store, the calls made and the world.
\<close>

definition replaceInjectedVars ::
  "('act, 'w) authorization \<Rightarrow> (request \<Rightarrow> ('c, 'w) disableUICapabilites) \<Rightarrow>
     nat \<Rightarrow> request \<Rightarrow> ('c, 'm) store \<Rightarrow> 'w
     \<Rightarrow> nat \<times> ('c, 'm) store \<times> 'act event list \<times> 'w" where
  "replaceInjectedVars authz disableUICapabilitesFactory originalInjectedVars req st w =
     (let m = useRbac authz w in
      if \<not> m then (originalInjectedVars, st, [UseRbac m], w)
      else
        let disableUICapabilites = disableUICapabilitesFactory req in
        if auth (settings (route req)) = AuthBool False then
          let copy = st ! originalInjectedVars;
              caps = all disableUICapabilites (uiCapabilities (st ! originalInjectedVars))
          in (length st, st @ [copy\<lparr>uiCapabilities := caps\<rparr>],
              [UseRbac m, DisableUICapabilitesFactory req, DisableAll], w)
        else
          let copy = st ! originalInjectedVars;
              (caps, w') = usingPrivileges disableUICapabilites
                             (uiCapabilities (st ! originalInjectedVars)) w
          in (length st, st @ [copy\<lparr>uiCapabilities := caps\<rparr>],
              [UseRbac m, DisableUICapabilitesFactory req, DisableUsingPrivileges], w'))"

subsection \<open>The saved-objects client factories\<close>

text \<open>The admin cluster: \<open>'a\<close> are the arguments of a cluster call, \<open>'r\<close> its result.\<close>

record ('a, 'r) cluster =
  callWithRequest :: "request \<Rightarrow> 'a \<Rightarrow> 'r"
  callWithInternalUser :: "'a \<Rightarrow> 'r"

text \<open>
  \<open>savedObjects.getSavedObjectsRepository(callCluster)\<close> builds a repository over the
  function it will call the cluster with.
\<close>

datatype ('a, 'r) repository = getSavedObjectsRepository (callCluster: "'a \<Rightarrow> 'r")

text \<open>
  A client is a \<open>SavedObjectsClient\<close> over a repository or a
  \<open>SecureSavedObjectsClientWrapper\<close> over the options it was constructed with:
  \<open>actions\<close>, \<open>auditLogger\<close>, \<open>baseClient\<close>, \<open>checkPrivilegesDynamicallyWithRequest\<close>,
  \<open>errors\<close>, \<open>request\<close>, \<open>savedObjectTypes\<close>.
\<close>

datatype ('a, 'r, 'act, 'w, 'al, 'er) client =
    SavedObjectsClient "('a, 'r) repository"
  | SecureSavedObjectsClientWrapper
      "'act actions" 'al "('a, 'r, 'act, 'w, 'al, 'er) client"
      "request \<Rightarrow> 'act check_arg \<Rightarrow> 'w \<Rightarrow> check_response \<times> 'w"
      'er request "string list"

text \<open>
  The factory given to \<open>setScopedSavedObjectsClientFactory\<close>: the client, and the
  repositories the call constructed.
\<close>

definition scopedSavedObjectsClientFactory ::
  "('act, 'w) authorization \<Rightarrow> ('a, 'r) cluster \<Rightarrow> request \<Rightarrow> 'w
     \<Rightarrow> ('a, 'r, 'act, 'w, 'al, 'er) client \<times> ('a, 'r) repository list" where
  "scopedSavedObjectsClientFactory authz adminCluster req w =
     (let callCluster = (\<lambda>args. callWithRequest adminCluster req args) in
      if useRbac authz w then
        let internalRepository = getSavedObjectsRepository (callWithInternalUser adminCluster)
        in (SavedObjectsClient internalRepository, [internalRepository])
      else
        let callWithRequestRepository = getSavedObjectsRepository callCluster
        in (SavedObjectsClient callWithRequestRepository, [callWithRequestRepository]))"

text \<open>
  The factory given to \<open>addScopedSavedObjectsClientWrapperFactory\<close>: the client it
  returns, and the wrappers the call constructed.
\<close>

definition scopedSavedObjectsClientWrapperFactory ::
  "('act, 'w) authorization \<Rightarrow> 'al \<Rightarrow> 'er \<Rightarrow> string list \<Rightarrow>
     ('a, 'r, 'act, 'w, 'al, 'er) client \<Rightarrow> request \<Rightarrow> 'w
     \<Rightarrow> ('a, 'r, 'act, 'w, 'al, 'er) client \<times> ('a, 'r, 'act, 'w, 'al, 'er) client list" where
  "scopedSavedObjectsClientWrapperFactory authz auditLogger errors types client req w =
     (if useRbac authz w then
        let wrapper = SecureSavedObjectsClientWrapper (actions authz) auditLogger client
                        (checkPrivilegesDynamicallyWithRequest authz) errors req types
        in (wrapper, [wrapper])
      else (client, []))"

subsection \<open>Configuration schema, deprecations and the reads of the configuration\<close>

text \<open>Configuration values.\<close>

datatype jv = JNull | JBool bool | JNum int | JStr string | JArr "jv list"
  | JObj "(string \<times> jv) list"

text \<open>
  The Joi schemas the plugin builds, each with the argument of its \<open>.default(...)\<close> when
  it has one; an object schema carries its keys and whether \<open>.default()\<close> was called on it.
  The constraints on the values (\<open>valid\<close>, \<open>hostname\<close>, \<open>integer\<close>, \<open>min\<close>, \<open>max\<close>,
  \<open>allow\<close>, \<open>items\<close>) take no part in the defaults and are left out.
\<close>

datatype joi =
    Joi_array "jv option"
  | Joi_boolean "jv option"
  | Joi_number "jv option"
  | Joi_string "jv option"
  | Joi_object "(string \<times> joi) list" bool

text \<open>
  The value Joi gives a key that the settings leave out: the argument of \<open>.default(...)\<close>;
  for an object schema with \<open>.default()\<close>, the object of the defaults of its keys.
\<close>

fun joi_default :: "joi \<Rightarrow> jv option"
  and joi_defaults :: "(string \<times> joi) list \<Rightarrow> (string \<times> jv) list" where
  "joi_default (Joi_array d) = d"
| "joi_default (Joi_boolean d) = d"
| "joi_default (Joi_number d) = d"
| "joi_default (Joi_string d) = d"
| "joi_default (Joi_object keys has_default) =
     (if has_default then Some (JObj (joi_defaults keys)) else None)"
| "joi_defaults [] = []"
| "joi_defaults ((k, s) # keys) =
     (case joi_default s of
        None \<Rightarrow> joi_defaults keys
      | Some v \<Rightarrow> (k, v) # joi_defaults keys)"

text \<open>Reading a dotted key such as \<open>a.b.c\<close> in a configuration value.\<close>

fun jv_path :: "jv \<Rightarrow> string list \<Rightarrow> jv option" where
  "jv_path v [] = Some v"
| "jv_path (JObj kvs) (k # ks) =
     (case map_of kvs k of None \<Rightarrow> None | Some v \<Rightarrow> jv_path v ks)"
| "jv_path _ (k # ks) = None"

definition jv_get :: "jv \<Rightarrow> string \<Rightarrow> jv option" where
  "jv_get v key = jv_path v (split_all CHR ''.'' key)"

text \<open>The schema returned by \<open>config(Joi)\<close>, under the prefix \<open>xpack.security\<close>.\<close>

definition config :: joi where
  "config = Joi_object
     [(''authProviders'', Joi_array (Some (JArr [JStr ''basic'']))),
      (''enabled'', Joi_boolean (Some (JBool True))),
      (''cookieName'', Joi_string (Some (JStr ''sid''))),
      (''encryptionKey'', Joi_string None),
      (''sessionTimeout'', Joi_number (Some JNull)),
      (''secureCookies'', Joi_boolean (Some (JBool False))),
      (''public'', Joi_object
         [(''protocol'', Joi_string None),
          (''hostname'', Joi_string None),
          (''port'', Joi_number None)] True),
      (''authorization'', Joi_object
         [(''legacyFallback'', Joi_object
            [(''enabled'', Joi_boolean (Some (JBool True)))] True)] True),
      (''audit'', Joi_object
         [(''enabled'', Joi_boolean (Some (JBool False)))] True)] True"

text \<open>
  \<open>deprecations({ unused })\<close>: the list of deprecations of the plugin, built with the
  \<open>unused\<close> helper it is handed.
\<close>

definition deprecations :: "(string \<Rightarrow> 'd) \<Rightarrow> 'd list" where
  "deprecations unused = [unused ''authorization.legacyFallback.enabled'']"

text \<open>
  The running configuration is read with \<open>config.get(key)\<close>. \<open>injectDefaultVars\<close> is the
  function of the plugin file that reads settings: it yields the default vars and the keys
  it asked the configuration for, in order.
\<close>

record defaultVars =
  secureCookies :: jv
  sessionTimeout :: jv
  enableSpaceAwarePrivileges :: jv

definition injectDefaultVars :: "(string \<Rightarrow> jv) \<Rightarrow> defaultVars \<times> string list" where
  "injectDefaultVars config_get =
     (\<lparr>secureCookies = config_get ''xpack.security.secureCookies'',
       sessionTimeout = config_get ''xpack.security.sessionTimeout'',
       enableSpaceAwarePrivileges = config_get ''xpack.spaces.enabled''\<rparr>,
      [''xpack.security.secureCookies'', ''xpack.security.sessionTimeout'',
       ''xpack.spaces.enabled''])"

subsection \<open>The capability disabler's "disable all" path\<close>

text \<open>A capability map: feature id to capability id to flag.\<close>

type_synonym uiCapabilityMap = "(string \<times> (string \<times> bool) list) list"

text \<open>
  Modelled from the spec: the "disable all" path of the Capability Disabler
  (\<open>disableUICapabilites.all\<close>), whose module is not part of the plugin file. It returns a
  new map of identical shape in which every capability flag is false.
\<close>

definition disableAll :: "uiCapabilityMap \<Rightarrow> uiCapabilityMap" where
  "disableAll m = map (\<lambda>(feature, caps). (feature, map (\<lambda>(c, b). (c, False)) caps)) m"

subsection \<open>Concrete collaborators for evaluating the hooks\<close>

text \<open>
  A world with a license flag and the actions granted to the caller; action names of the
  forms \<open>app:<appId>\<close> and \<open>api:<feature>/<operation>\<close>; a checker that answers from the
  grants, during whose call the license lapses.
\<close>

record world =
  license_allows_rbac :: bool
  granted :: "string list"

definition example_actions :: "string actions" where
  "example_actions =
     \<lparr>app_get = (\<lambda>appId. ''app:'' @ template appId),
      api_get = (\<lambda>operation. ''api:'' @ operation)\<rparr>"

definition example_check :: "request \<Rightarrow> string check_arg \<Rightarrow> world \<Rightarrow> check_response \<times> world" where
  "example_check req arg w =
     (\<lparr>hasAllRequested =
         (case arg of
            Single a \<Rightarrow> a \<in> set (granted w)
          | Many as \<Rightarrow> list_all (\<lambda>a. a \<in> set (granted w)) as)\<rparr>,
      w\<lparr>license_allows_rbac := False\<rparr>)"

definition example_authorization :: "(string, world) authorization" where
  "example_authorization =
     \<lparr>useRbac = license_allows_rbac,
      actions = example_actions,
      checkPrivilegesDynamicallyWithRequest = example_check\<rparr>"

definition example_request :: "string \<Rightarrow> string list \<Rightarrow> request" where
  "example_request p ts =
     \<lparr>path = p,
      route = \<lparr>settings = \<lparr>auth = AuthConfig ''session'', tags = Some ts\<rparr>\<rparr>,
      principal = ''alice''\<rparr>"

definition anonymous_request :: "string \<Rightarrow> request" where
  "anonymous_request p =
     \<lparr>path = p,
      route = \<lparr>settings = \<lparr>auth = AuthBool False, tags = None\<rparr>\<rparr>,
      principal = ''''\<rparr>"

text \<open>A disabler over capability maps whose privilege path keeps the flags it is given.\<close>

definition example_disabler :: "request \<Rightarrow> (uiCapabilityMap, world) disableUICapabilites" where
  "example_disabler req = \<lparr>all = disableAll, usingPrivileges = (\<lambda>caps w. (caps, w))\<rparr>"

text \<open>A store holding one injected-vars object, with one feature and a version field.\<close>

definition example_store :: "(uiCapabilityMap, string) store" where
  "example_store =
     [\<lparr>uiCapabilities = [(''dashboard'', [(''show'', True), (''save'', False)])],
       \<dots> = ''7.0.0''\<rparr>]"

text \<open>A cluster whose calls report the identity they are made with.\<close>

definition example_cluster :: "(string, string) cluster" where
  "example_cluster =
     \<lparr>callWithRequest = (\<lambda>req args. principal req @ '' calls '' @ args),
      callWithInternalUser = (\<lambda>args. ''internal user calls '' @ args)\<rparr>"

section \<open>Properties\<close>

subsection \<open>Splitting strings\<close>

lemma split_all_nonempty: "split_all c s \<noteq> []"
  by (induction s) (auto split: list.splits)

lemma split_all_unfold:
  "split_all c s = takeWhile (\<lambda>x. x \<noteq> c) s #
     (case dropWhile (\<lambda>x. x \<noteq> c) s of [] \<Rightarrow> [] | y # ys \<Rightarrow> split_all c ys)"
  by (induction s) (auto split: list.splits)

lemma index_take: "i < n \<Longrightarrow> index (take n xs) i = index xs i"
  by (simp add: index_def)

lemma startsWith_append: "startsWith s p \<Longrightarrow> length p = n \<Longrightarrow> s = p @ drop n s"
  unfolding startsWith_def by (metis append_take_drop_id)

lemma third_segment:
  assumes "startsWith p [CHR ''/'', a, b, c, CHR ''/'']" and "a \<noteq> CHR ''/''" "b \<noteq> CHR ''/''" "c \<noteq> CHR ''/''"
  shows "index (split_all CHR ''/'' p) 2 = Some (takeWhile (\<lambda>x. x \<noteq> CHR ''/'') (drop 5 p))"
proof -
  define r where r: "r = drop 5 p"
  have p: "p = [CHR ''/'', a, b, c, CHR ''/''] @ r"
    unfolding r by (rule startsWith_append[OF assms(1)]) simp
  have "index (split_all CHR ''/'' p) 2 = Some (takeWhile (\<lambda>x. x \<noteq> CHR ''/'') r)"
    unfolding p index_def using assms(2-)
    by (simp add: split_all_unfold[of _ r] split: list.splits)
  thus ?thesis by (simp add: r)
qed

lemma second_piece:
  assumes "startsWith t ''access:''"
  shows "index (split CHR '':'' 2 t) 1 = Some (takeWhile (\<lambda>x. x \<noteq> CHR '':'') (drop 7 t))"
proof -
  define r where r: "r = drop 7 t"
  have p: "t = ''access:'' @ r"
    unfolding r by (rule startsWith_append[OF assms]) simp
  have "index (split CHR '':'' 2 t) 1 = Some (takeWhile (\<lambda>x. x \<noteq> CHR '':'') r)"
    unfolding p index_def split_def
    by (simp add: split_all_unfold[of _ r] split: list.splits)
  thus ?thesis by (simp add: r)
qed

lemma not_both: "startsWith p ''/app/'' \<Longrightarrow> \<not> startsWith p ''/api/''"
  unfolding startsWith_def by (cases p rule: list.exhaust; auto simp: take_Cons' split: if_splits)

subsection \<open>The interceptor and the wrapper factory in legacy mode\<close>

text \<open>
  C1. When \<open>mode.useRbac()\<close> returns false, \<open>onPostAuth\<close> returns \<open>h.continue\<close> for every
  request, having made no call but the one read of the mode: neither
  \<open>checkPrivilegesDynamicallyWithRequest\<close> nor the checker is invoked, and the world is left
  as it was. The saved-objects client wrapper factory returns the client it was given and
  constructs no \<open>SecureSavedObjectsClientWrapper\<close>.
\<close>

theorem legacy_mode_never_checks:
  "\<not> useRbac authz w \<Longrightarrow>
     onPostAuth authz req w = (h_continue, [UseRbac False], w) \<and>
     scopedSavedObjectsClientWrapperFactory authz auditLogger errors types client req w = (client, [])"
  by (simp add: onPostAuth_def scopedSavedObjectsClientWrapperFactory_def)

theorem legacy_mode_never_checks_witness:
  "\<not> useRbac example_authorization \<lparr>license_allows_rbac = False, granted = []\<rparr> \<and>
   onPostAuth example_authorization (example_request ''/app/kibana'' [''access:read''])
       \<lparr>license_allows_rbac = False, granted = []\<rparr>
     = (h_continue, [UseRbac False], \<lparr>license_allows_rbac = False, granted = []\<rparr>) \<and>
   scopedSavedObjectsClientWrapperFactory example_authorization ''audit'' ''errors'' [''dashboard'']
       (SavedObjectsClient (getSavedObjectsRepository (\<lambda>args :: string. args)))
       (example_request ''/app/kibana'' []) \<lparr>license_allows_rbac = False, granted = []\<rparr>
     = (SavedObjectsClient (getSavedObjectsRepository (\<lambda>args :: string. args)), [])"
  using legacy_mode_never_checks
    [of example_authorization "\<lparr>license_allows_rbac = False, granted = []\<rparr>"
        "example_request ''/app/kibana'' [''access:read'']" "''audit''" "''errors''" "[''dashboard'']"
        "SavedObjectsClient (getSavedObjectsRepository (\<lambda>args :: string. args))"]
  by (simp add: example_authorization_def example_request_def 
      scopedSavedObjectsClientWrapperFactory_def)

subsection \<open>App routes\<close>

text \<open>
  C3. In RBAC mode, for a request whose path starts with \<open>/app/\<close>, the interceptor derives
  one action, \<open>actions.app.get(appId)\<close> with \<open>appId\<close> the third piece of the path split at
  \<open>/\<close>, calls the checker once, with that single action, answers not-found exactly when
  \<open>hasAllRequested\<close> is false and continues otherwise.
\<close>

theorem app_route_check:
  assumes "useRbac authz w" and "startsWith (path req) ''/app/''"
  shows "\<exists>appId. index (split_all CHR ''/'' (path req)) 2 = Some appId \<and>
     onPostAuth authz req w =
       (let appAction = app_get (actions authz) (Some appId);
            (resp, w') = checkPrivilegesDynamicallyWithRequest authz req (Single appAction) w
        in (if hasAllRequested resp then h_continue else Boom_notFound None,
            [UseRbac True, CheckPrivilegesDynamicallyWithRequest req,
             CheckPrivileges (Single appAction)],
            w'))"
proof -
  let ?appId = "takeWhile (\<lambda>x. x \<noteq> CHR ''/'') (drop 5 (path req))"
  have seg: "index (split_all CHR ''/'' (path req)) 2 = Some ?appId"
    using third_segment[of "path req" "CHR ''a''" "CHR ''p''" "CHR ''p''"] assms(2) by simp
  have lim: "index (split CHR ''/'' 3 (path req)) 2 = Some ?appId"
    using seg by (simp add: split_def index_take)
  have napi: "\<not> startsWith (path req) ''/api/''" using assms(2) by (rule not_both)
  have "onPostAuth authz req w =
       (let appAction = app_get (actions authz) (Some ?appId);
            (resp, w') = checkPrivilegesDynamicallyWithRequest authz req (Single appAction) w
        in (if hasAllRequested resp then h_continue else Boom_notFound None,
            [UseRbac True, CheckPrivilegesDynamicallyWithRequest req,
             CheckPrivileges (Single appAction)],
            w'))"
    using assms napi
    by (simp add: onPostAuth_def enforce_app_def enforce_api_def lim Let_def split: prod.splits)
  with seg show ?thesis by blast
qed


theorem app_route_check_witness:
  "useRbac example_authorization \<lparr>license_allows_rbac = True, granted = [''app:kibana'']\<rparr> \<and>
   startsWith (path (example_request ''/app/secret/x'' [])) ''/app/'' \<and>
   onPostAuth example_authorization (example_request ''/app/secret/x'' [])
       \<lparr>license_allows_rbac = True, granted = [''app:kibana'']\<rparr>
     = (Boom 404 None,
        [UseRbac True, CheckPrivilegesDynamicallyWithRequest (example_request ''/app/secret/x'' []),
         CheckPrivileges (Single ''app:secret'')],
        \<lparr>license_allows_rbac = False, granted = [''app:kibana'']\<rparr>)"
  using app_route_check
    [of example_authorization "\<lparr>license_allows_rbac = True, granted = [''app:kibana'']\<rparr>"
        "example_request ''/app/secret/x'' []"]
  by (auto simp: example_authorization_def example_request_def example_actions_def
      example_check_def startsWith_def index_def Boom_notFound_def)

subsection \<open>Denied and nonexistent apps\<close>




subsection \<open>API routes\<close>

text \<open>
  C4, amended. In RBAC mode, for a request whose path starts with \<open>/api/\<close>: when the route
  carries tags beginning with \<open>access:\<close>, the interceptor calls the checker once, with the
  actions \<open>actions.api.get(feature/operation)\<close> of these tags in their order, where
  \<open>feature\<close> is the third piece of the path split at \<open>/\<close> and \<open>operation\<close> is the text of
  the tag after \<open>access:\<close> up to its next colon (all of it when there is none); it answers
  not-found exactly when \<open>hasAllRequested\<close> is false. When the route carries no such tag,
  the interceptor continues and the checker, bound to the request, is never called.
\<close>

theorem api_route_check:
  assumes "useRbac authz w" and "startsWith (path req) ''/api/''"
  shows "\<exists>feature. index (split_all CHR ''/'' (path req)) 2 = Some feature \<and>
     (let actionTags = filter (\<lambda>tag. startsWith tag ''access:'')
                         (case tags (settings (route req)) of None \<Rightarrow> [] | Some ts \<Rightarrow> ts)
      in onPostAuth authz req w =
        (if actionTags = []
         then (h_continue, [UseRbac True, CheckPrivilegesDynamicallyWithRequest req], w)
         else
           let apiActions = map (\<lambda>tag. api_get (actions authz)
                 (feature @ ''/'' @ takeWhile (\<lambda>c. c \<noteq> CHR '':'') (drop 7 tag))) actionTags;
               (resp, w') = checkPrivilegesDynamicallyWithRequest authz req (Many apiActions) w
           in (if hasAllRequested resp then h_continue else Boom_notFound None,
               [UseRbac True, CheckPrivilegesDynamicallyWithRequest req,
                CheckPrivileges (Many apiActions)],
               w')))"
proof -
  let ?feature = "takeWhile (\<lambda>x. x \<noteq> CHR ''/'') (drop 5 (path req))"
  let ?tags = "filter (\<lambda>tag. startsWith tag ''access:'')
                 (case tags (settings (route req)) of None \<Rightarrow> [] | Some ts \<Rightarrow> ts)"
  have seg: "index (split_all CHR ''/'' (path req)) 2 = Some ?feature"
    using third_segment[of "path req" "CHR ''a''" "CHR ''p''" "CHR ''i''"] assms(2) by simp
  have lim: "index (split CHR ''/'' 3 (path req)) 2 = Some ?feature"
    using seg by (simp add: split_def index_take)
  have napp: "\<not> startsWith (path req) ''/app/''" using assms(2) not_both by blast
  let ?raw = "map (\<lambda>tag. api_get (actions authz)
                 (template (Some ?feature) @ ''/'' @ template (index (split CHR '':'' 2 tag) 1))) ?tags"
  let ?ops = "map (\<lambda>tag. api_get (actions authz)
                 (?feature @ ''/'' @ takeWhile (\<lambda>c. c \<noteq> CHR '':'') (drop 7 tag))) ?tags"
  have ops: "?raw = ?ops"
    by (rule map_cong) (simp_all add: second_piece del: One_nat_def)
  have "onPostAuth authz req w =
        (if ?tags = []
         then (h_continue, [UseRbac True, CheckPrivilegesDynamicallyWithRequest req], w)
         else
           let apiActions = ?raw;
               (resp, w') = checkPrivilegesDynamicallyWithRequest authz req (Many apiActions) w
           in (if hasAllRequested resp then h_continue else Boom_notFound None,
               [UseRbac True, CheckPrivilegesDynamicallyWithRequest req,
                CheckPrivileges (Many apiActions)],
               w'))"
    using assms(1) napp assms(2)
    by (simp add: onPostAuth_def enforce_app_def enforce_api_def lim Let_def split: prod.splits)
  then have "onPostAuth authz req w =
        (if ?tags = []
         then (h_continue, [UseRbac True, CheckPrivilegesDynamicallyWithRequest req], w)
         else
           let apiActions = ?ops;
               (resp, w') = checkPrivilegesDynamicallyWithRequest authz req (Many apiActions) w
           in (if hasAllRequested resp then h_continue else Boom_notFound None,
               [UseRbac True, CheckPrivilegesDynamicallyWithRequest req,
                CheckPrivileges (Many apiActions)],
               w'))"
    unfolding ops .
  with seg show ?thesis by (simp add: Let_def)
qed

theorem api_route_check_witness:
  "useRbac example_authorization
     \<lparr>license_allows_rbac = True, granted = [''api:feat/read'', ''api:feat/write'']\<rparr> \<and>
   startsWith (path (example_request ''/api/feat/do'' [''access:read'', ''other'', ''access:write:x'']))
     ''/api/'' \<and>
   onPostAuth example_authorization
       (example_request ''/api/feat/do'' [''access:read'', ''other'', ''access:write:x''])
       \<lparr>license_allows_rbac = True, granted = [''api:feat/read'', ''api:feat/write'']\<rparr>
     = (h_continue,
        [UseRbac True,
         CheckPrivilegesDynamicallyWithRequest
           (example_request ''/api/feat/do'' [''access:read'', ''other'', ''access:write:x'']),
         CheckPrivileges (Many [''api:feat/read'', ''api:feat/write''])],
        \<lparr>license_allows_rbac = False, granted = [''api:feat/read'', ''api:feat/write'']\<rparr>) \<and>
   onPostAuth example_authorization (example_request ''/api/feat/do'' [''other''])
       \<lparr>license_allows_rbac = True, granted = []\<rparr>
     = (h_continue,
        [UseRbac True,
         CheckPrivilegesDynamicallyWithRequest (example_request ''/api/feat/do'' [''other''])],
        \<lparr>license_allows_rbac = True, granted = []\<rparr>)"
  using api_route_check
    [of example_authorization
        "\<lparr>license_allows_rbac = True, granted = [''api:feat/read'', ''api:feat/write'']\<rparr>"
        "example_request ''/api/feat/do'' [''access:read'', ''other'', ''access:write:x'']"]
    api_route_check
    [of example_authorization "\<lparr>license_allows_rbac = True, granted = []\<rparr>"
        "example_request ''/api/feat/do'' [''other'']"]
  by (auto simp: example_authorization_def example_request_def example_actions_def
      example_check_def startsWith_def index_def Boom_notFound_def Let_def)

text \<open>
  C4, as stated, fails on a tag with a second colon. For the tag \<open>access:a:b\<close> the text after
  \<open>access:\<close> is \<open>a:b\<close>, and the action of the claim, \<open>api:feat/a:b\<close>, is not granted; the
  interceptor asks for \<open>api:feat/a\<close>, which is granted, and continues.
\<close>

theorem api_operation_counterexample:
  "onPostAuth example_authorization (example_request ''/api/feat/x'' [''access:a:b''])
       \<lparr>license_allows_rbac = True, granted = [''api:feat/a'']\<rparr>
     = (h_continue,
        [UseRbac True,
         CheckPrivilegesDynamicallyWithRequest (example_request ''/api/feat/x'' [''access:a:b'']),
         CheckPrivileges (Many [''api:feat/a''])],
        \<lparr>license_allows_rbac = False, granted = [''api:feat/a'']\<rparr>) \<and>
   api_get example_actions (''feat'' @ ''/'' @ drop (length ''access:'') ''access:a:b'')
     = ''api:feat/a:b'' \<and>
   ''api:feat/a:b'' \<notin> set (granted \<lparr>license_allows_rbac = True, granted = [''api:feat/a'']\<rparr>)"
  by (simp add: onPostAuth_def enforce_app_def enforce_api_def example_authorization_def
      example_request_def example_actions_def example_check_def startsWith_def index_def
      split_def Boom_notFound_def Let_def)

subsection \<open>One read of the mode per request\<close>

text \<open>
  C8. The interceptor reads the mode once, as its first call, before any call of the
  checker, and never again: the calls it makes start with the read of the mode and hold no
  other. Its whole result is fixed by the value read at entry: a mode that agrees with the
  given one on the world at entry and differs on every later world, such as the worlds the
  checker hands back, leads to the same response, the same calls and the same final world.
\<close>

theorem mode_read_once:
  assumes "u w = useRbac authz w"
  shows "onPostAuth (authz\<lparr>useRbac := u\<rparr>) req w = onPostAuth authz req w \<and>
         (\<exists>t. fst (snd (onPostAuth authz req w)) = UseRbac (useRbac authz w) # t \<and>
              (\<forall>b. UseRbac b \<notin> set t))"
  using assms
  by (simp add: onPostAuth_def enforce_app_def enforce_api_def Let_def
      split: prod.splits option.splits)


theorem mode_read_once_witness:
  "(\<lambda>w. True) \<lparr>license_allows_rbac = True, granted = []\<rparr>
     = useRbac example_authorization \<lparr>license_allows_rbac = True, granted = []\<rparr> \<and>
   onPostAuth (example_authorization\<lparr>useRbac := \<lambda>w. True\<rparr>) (example_request ''/app/kibana'' [])
       \<lparr>license_allows_rbac = True, granted = []\<rparr>
     = onPostAuth example_authorization (example_request ''/app/kibana'' [])
         \<lparr>license_allows_rbac = True, granted = []\<rparr> \<and>
   onPostAuth example_authorization (example_request ''/app/kibana'' [])
       \<lparr>license_allows_rbac = True, granted = []\<rparr>
     = (Boom 404 None,
        [UseRbac True, CheckPrivilegesDynamicallyWithRequest (example_request ''/app/kibana'' []),
         CheckPrivileges (Single ''app:kibana'')],
        \<lparr>license_allows_rbac = False, granted = []\<rparr>) \<and>
   \<not> useRbac example_authorization \<lparr>license_allows_rbac = False, granted = []\<rparr>"
  using mode_read_once
    [of "\<lambda>w. True" "\<lparr>license_allows_rbac = True, granted = []\<rparr>" example_authorization
        "example_request ''/app/kibana'' []"]
  by (simp add: onPostAuth_def enforce_app_def enforce_api_def example_authorization_def
      example_request_def example_actions_def example_check_def startsWith_def index_def
      split_def Boom_notFound_def Let_def)

subsection \<open>The injected vars\<close>

text \<open>
  C5. \<open>replaceInjectedVars\<close> never mutates its input: every object of the store, the
  injected vars it was given among them, is after the call what it was before. When
  \<open>useRbac()\<close> is false it returns the reference it was given, with the store and the world
  untouched. When \<open>useRbac()\<close> is true it returns a reference to a new object, in which
  every field other than \<open>uiCapabilities\<close> is the field of the input and \<open>uiCapabilities\<close> is
  the output of the disabler: of \<open>all\<close> on an anonymous route, of \<open>usingPrivileges\<close> otherwise.
\<close>

theorem replaceInjectedVars_frame:
  assumes "originalInjectedVars < length st"
  shows "case replaceInjectedVars authz factory originalInjectedVars req st w of
      (r, st', t, w') \<Rightarrow>
        (\<forall>i < length st. st' ! i = st ! i) \<and>
        (\<not> useRbac authz w \<longrightarrow> r = originalInjectedVars \<and> st' = st \<and> w' = w) \<and>
        (useRbac authz w \<longrightarrow>
           r = length st \<and> length st' = Suc (length st) \<and>
           injectedVars.more (st' ! r) = injectedVars.more (st ! originalInjectedVars) \<and>
           uiCapabilities (st' ! r) =
             (if auth (settings (route req)) = AuthBool False
              then all (factory req) (uiCapabilities (st ! originalInjectedVars))
              else fst (usingPrivileges (factory req)
                          (uiCapabilities (st ! originalInjectedVars)) w)))"
  using assms
  by (auto simp: replaceInjectedVars_def Let_def nth_append split: prod.splits)

theorem replaceInjectedVars_frame_witness:
  "0 < length example_store \<and>
   replaceInjectedVars example_authorization example_disabler 0 (example_request ''/app/kibana'' [])
       example_store \<lparr>license_allows_rbac = False, granted = []\<rparr>
     = (0, example_store, [UseRbac False], \<lparr>license_allows_rbac = False, granted = []\<rparr>) \<and>
   replaceInjectedVars example_authorization example_disabler 0 (example_request ''/app/kibana'' [])
       example_store \<lparr>license_allows_rbac = True, granted = []\<rparr>
     = (1,
        example_store @
          [\<lparr>uiCapabilities = [(''dashboard'', [(''show'', True), (''save'', False)])],
            \<dots> = ''7.0.0''\<rparr>],
        [UseRbac True, DisableUICapabilitesFactory (example_request ''/app/kibana'' []),
         DisableUsingPrivileges],
        \<lparr>license_allows_rbac = True, granted = []\<rparr>)"
  using replaceInjectedVars_frame
    [where originalInjectedVars = 0 and st = example_store and authz = example_authorization
       and factory = example_disabler and req = "example_request ''/app/kibana'' []"
       and w = "\<lparr>license_allows_rbac = False, granted = []\<rparr>"]
    replaceInjectedVars_frame
    [where originalInjectedVars = 0 and st = example_store and authz = example_authorization
       and factory = example_disabler and req = "example_request ''/app/kibana'' []"
       and w = "\<lparr>license_allows_rbac = True, granted = []\<rparr>"]
  by (simp add: replaceInjectedVars_def example_store_def example_authorization_def
      example_disabler_def example_request_def Let_def)

subsection \<open>Anonymous routes\<close>

lemma disableAll_shape: "map fst (disableAll m) = map fst m"
  by (induction m) (auto simp: disableAll_def)

lemma disableAll_flags:
  "(feature, flags) \<in> set (disableAll m) \<Longrightarrow> (c, b) \<in> set flags \<Longrightarrow> \<not> b"
  by (auto simp: disableAll_def)

text \<open>
  C6. In RBAC mode, on a route whose \<open>auth\<close> setting is \<open>false\<close>, \<open>replaceInjectedVars\<close>
  calls \<open>disableUICapabilites.all\<close> and not \<open>usingPrivileges\<close>: its calls are the read of
  the mode, the disabler factory and \<open>all\<close>, and the world is untouched, so nothing
  asynchronous, the checker included, is consulted. With the "disable all" path of the
  disabler, the capability map of the new object has the features and capability ids of the
  input and every flag false.
\<close>

theorem anonymous_route_disables_all:
  assumes "useRbac authz w" and "auth (settings (route req)) = AuthBool False"
    and "originalInjectedVars < length st" and "all (factory req) = disableAll"
  shows "\<exists>caps.
      replaceInjectedVars authz factory originalInjectedVars req st w =
        (length st, st @ [(st ! originalInjectedVars)\<lparr>uiCapabilities := caps\<rparr>],
         [UseRbac True, DisableUICapabilitesFactory req, DisableAll], w) \<and>
      map fst caps = map fst (uiCapabilities (st ! originalInjectedVars)) \<and>
      map (map fst \<circ> snd) caps = map (map fst \<circ> snd) (uiCapabilities (st ! originalInjectedVars)) \<and>
      (\<forall>(feature, flags) \<in> set caps. \<forall>(c, b) \<in> set flags. \<not> b)"
proof -
  let ?caps = "disableAll (uiCapabilities (st ! originalInjectedVars))"
  have "replaceInjectedVars authz factory originalInjectedVars req st w =
        (length st, st @ [(st ! originalInjectedVars)\<lparr>uiCapabilities := ?caps\<rparr>],
         [UseRbac True, DisableUICapabilitesFactory req, DisableAll], w)"
    using assms by (simp add: replaceInjectedVars_def Let_def)
  moreover have "map fst ?caps = map fst (uiCapabilities (st ! originalInjectedVars))"
    by (rule disableAll_shape)
  moreover have "map (map fst \<circ> snd) ?caps = map (map fst \<circ> snd) (uiCapabilities (st ! originalInjectedVars))"
    by (auto simp: disableAll_def)
  moreover have "\<forall>(feature, flags) \<in> set ?caps. \<forall>(c, b) \<in> set flags. \<not> b"
    using disableAll_flags by fastforce
  ultimately show ?thesis by blast
qed

theorem anonymous_route_disables_all_witness:
  "useRbac example_authorization \<lparr>license_allows_rbac = True, granted = [''ui:dashboard/show'']\<rparr> \<and>
   auth (settings (route (anonymous_request ''/login''))) = AuthBool False \<and>
   0 < length example_store \<and>
   all (example_disabler (anonymous_request ''/login'')) = disableAll \<and>
   replaceInjectedVars example_authorization example_disabler 0 (anonymous_request ''/login'')
       example_store \<lparr>license_allows_rbac = True, granted = [''ui:dashboard/show'']\<rparr>
     = (1,
        example_store @
          [\<lparr>uiCapabilities = [(''dashboard'', [(''show'', False), (''save'', False)])],
            \<dots> = ''7.0.0''\<rparr>],
        [UseRbac True, DisableUICapabilitesFactory (anonymous_request ''/login''), DisableAll],
        \<lparr>license_allows_rbac = True, granted = [''ui:dashboard/show'']\<rparr>)"
  using anonymous_route_disables_all
    [where authz = example_authorization
       and w = "\<lparr>license_allows_rbac = True, granted = [''ui:dashboard/show'']\<rparr>"
       and req = "anonymous_request ''/login''" and originalInjectedVars = 0
       and st = example_store and factory = example_disabler]
  by (simp add: replaceInjectedVars_def example_store_def example_authorization_def
      example_disabler_def anonymous_request_def disableAll_def Let_def)

subsection \<open>Credentials of the scoped saved-objects client\<close>

text \<open>
  C9. The scoped client factory builds the client over one repository and constructs no
  other. When \<open>useRbac()\<close> is true the repository calls the cluster with
  \<open>callWithInternalUser\<close>; when it is false, with \<open>callWithRequest\<close> on the request of the
  caller.
\<close>

theorem client_factory_credentials:
  "\<exists>repo. scopedSavedObjectsClientFactory authz adminCluster req w = (SavedObjectsClient repo, [repo]) \<and>
     callCluster repo =
       (if useRbac authz w then callWithInternalUser adminCluster
        else callWithRequest adminCluster req)"
  by (simp add: scopedSavedObjectsClientFactory_def Let_def)


theorem client_factory_credentials_witness:
  "fst (scopedSavedObjectsClientFactory example_authorization example_cluster
          (example_request ''/api/saved_objects/_find'' [])
          \<lparr>license_allows_rbac = True, granted = []\<rparr>
        :: (string, string, string, world, string, string) client \<times> (string, string) repository list)
     = SavedObjectsClient (getSavedObjectsRepository (\<lambda>args. ''internal user calls '' @ args)) \<and>
   fst (scopedSavedObjectsClientFactory example_authorization example_cluster
          (example_request ''/api/saved_objects/_find'' [])
          \<lparr>license_allows_rbac = False, granted = []\<rparr>
        :: (string, string, string, world, string, string) client \<times> (string, string) repository list)
     = SavedObjectsClient (getSavedObjectsRepository (\<lambda>args. ''alice calls '' @ args))"
  using client_factory_credentials
    [where authz = example_authorization and adminCluster = example_cluster
       and req = "example_request ''/api/saved_objects/_find'' []"
       and w = "\<lparr>license_allows_rbac = True, granted = []\<rparr>"]
    client_factory_credentials
    [where authz = example_authorization and adminCluster = example_cluster
       and req = "example_request ''/api/saved_objects/_find'' []"
       and w = "\<lparr>license_allows_rbac = False, granted = []\<rparr>"]
  by (simp add: scopedSavedObjectsClientFactory_def example_authorization_def
      example_cluster_def example_request_def Let_def)

subsection \<open>The legacy-fallback setting\<close>

text \<open>
  What the plugin file fixes about \<open>authorization.legacyFallback.enabled\<close>: the schema
  gives it the default true, the deprecations of the plugin are the one entry made by
  \<open>unused\<close> for this key, and \<open>injectDefaultVars\<close> neither asks the configuration for it
  nor depends on its value. Whether the mode returned by \<open>mode.useRbac()\<close> depends on the
  setting is fixed by the authorization service, which is a parameter here.
\<close>

lemma legacyFallback_default_and_deprecation:
  "(\<exists>d. joi_default config = Some d \<and>
        jv_get d ''authorization.legacyFallback.enabled'' = Some (JBool True)) \<and>
   deprecations unused = [unused ''authorization.legacyFallback.enabled''] \<and>
   ''xpack.security.authorization.legacyFallback.enabled'' \<notin> set (snd (injectDefaultVars cfg)) \<and>
   injectDefaultVars (cfg(''xpack.security.authorization.legacyFallback.enabled'' := v))
     = injectDefaultVars cfg"
  by (simp add: config_def jv_get_def deprecations_def injectDefaultVars_def)

end
